theory Spec2Isabelle
  imports Complex_Main
begin

section \<open>The Vector type of p5 (\<^verbatim>\<open>p5/pmath/vector.py\<close>)\<close>

text \<open>
  The class \<^verbatim>\<open>Vector\<close> holds three numbers and is mutated in place by its setters,
  \<^verbatim>\<open>rotate\<close>, \<^verbatim>\<open>normalize\<close> and \<^verbatim>\<open>limit\<close>. The embedding is shallow:

  \<^item> the object is a record of its three attributes; a mutating method takes the
    object and returns the object after the call, a method that builds a new
    \<^verbatim>\<open>Vector\<close> returns that new record and leaves its arguments alone;
  \<^item> every \<^verbatim>\<open>raise\<close>, and every exception of a Python operator or of a
    \<^verbatim>\<open>math\<close> function the methods call, is the \<open>Inl\<close> branch of a result;
  \<^item> Python numbers are real numbers computed exactly: the rounding, the
    infinities and the NaN of binary floating point are outside the model.
    What is kept of the number system is what decides control flow and errors:
    \<^verbatim>\<open>/\<close> raises \<^verbatim>\<open>ZeroDivisionError\<close> on a zero divisor, \<^verbatim>\<open>math.sqrt\<close> and
    \<^verbatim>\<open>math.acos\<close> raise \<^verbatim>\<open>ValueError\<close> outside their domains. A theorem
    about a computed magnitude is therefore stated up to \<^verbatim>\<open>math.isclose\<close>, and
    for magnitudes in the range where a double can be squared without overflow
    or underflow (\<open>moderate\<close> below);
  \<^item> \<^verbatim>\<open>random.random()\<close> is an argument: the factories take the values drawn.
\<close>

subsection \<open>Errors and operands\<close>

datatype py_error = ValueError | TypeError | ZeroDivisionError

record Vector =
  x :: real
  y :: real
  z :: real

text \<open>
  The values an operator of \<^verbatim>\<open>Vector\<close> may meet as its other operand. A
  \<^verbatim>\<open>bool\<close> is an instance of \<^verbatim>\<open>int\<close> in Python.
\<close>

datatype py_value =
    PyInt int
  | PyBool bool
  | PyFloat real
  | PyVector Vector
  | PyStr string
  | PyNone

definition py_bind :: "py_error + 'a \<Rightarrow> ('a \<Rightarrow> py_error + 'b) \<Rightarrow> py_error + 'b" where
  "py_bind m f = (case m of Inl e \<Rightarrow> Inl e | Inr a \<Rightarrow> f a)"

text \<open>\<^verbatim>\<open>isinstance(k, int)\<close> and \<^verbatim>\<open>isinstance(k, float)\<close>.\<close>

fun isinstance_int :: "py_value \<Rightarrow> bool" where
  "isinstance_int (PyInt i) = True"
| "isinstance_int (PyBool b) = True"
| "isinstance_int k = False"

fun isinstance_float :: "py_value \<Rightarrow> bool" where
  "isinstance_float (PyFloat r) = True"
| "isinstance_float k = False"

text \<open>The number an \<^verbatim>\<open>int\<close> or \<^verbatim>\<open>float\<close> operand stands for in arithmetic.\<close>

fun num_of :: "py_value \<Rightarrow> real" where
  "num_of (PyInt i) = real_of_int i"
| "num_of (PyBool b) = (if b then 1 else 0)"
| "num_of (PyFloat r) = r"
| "num_of k = 0"

subsection \<open>The operators and \<^verbatim>\<open>math\<close> functions the methods call\<close>

text \<open>\<^verbatim>\<open>a / b\<close> on numbers.\<close>

definition py_div :: "real \<Rightarrow> real \<Rightarrow> py_error + real" where
  "py_div a b = (if b = 0 then Inl ZeroDivisionError else Inr (a / b))"

text \<open>\<^verbatim>\<open>1 / other\<close>, for any operand.\<close>

definition py_recip :: "py_value \<Rightarrow> py_error + real" where
  "py_recip other =
     (if isinstance_int other \<or> isinstance_float other then py_div 1 (num_of other)
      else Inl TypeError)"

text \<open>\<^verbatim>\<open>math.sqrt\<close> and \<^verbatim>\<open>math.acos\<close>, with their domain errors.\<close>

definition py_sqrt :: "real \<Rightarrow> py_error + real" where
  "py_sqrt a = (if a < 0 then Inl ValueError else Inr (sqrt a))"

definition py_acos :: "real \<Rightarrow> py_error + real" where
  "py_acos a = (if a < - 1 \<or> 1 < a then Inl ValueError else Inr (arccos a))"

text \<open>
  \<^verbatim>\<open>math.atan2(y, x)\<close>: the angle in \<open>(-\<pi>, \<pi>]\<close> of the point \<open>(x, y)\<close>, and
  \<open>0\<close> at the origin.
\<close>

definition atan2 :: "real \<Rightarrow> real \<Rightarrow> real" where
  "atan2 b a =
     (if 0 < a then arctan (b / a)
      else if a < 0 then (if 0 \<le> b then arctan (b / a) + pi else arctan (b / a) - pi)
      else if 0 < b then pi / 2
      else if b < 0 then - (pi / 2)
      else 0)"

text \<open>
  \<^verbatim>\<open>math.isclose(a, b)\<close> with its default tolerances \<^verbatim>\<open>rel_tol=1e-09\<close> and
  \<^verbatim>\<open>abs_tol=0.0\<close>: the comparison that \<^verbatim>\<open>__eq__\<close> applies to each pair of
  components, and the tolerance up to which the theorems below state a magnitude.
\<close>

definition rel_tol :: real where
  "rel_tol = 1 / 10 ^ 9"

definition abs_tol :: real where
  "abs_tol = 0"

definition isclose :: "real \<Rightarrow> real \<Rightarrow> bool" where
  "isclose a b =
     (a = b \<or> \<bar>b - a\<bar> \<le> \<bar>rel_tol * b\<bar> \<or> \<bar>b - a\<bar> \<le> \<bar>rel_tol * a\<bar> \<or> \<bar>b - a\<bar> \<le> abs_tol)"

text \<open>
  The magnitudes the numerical theorems speak about: a double \<open>r\<close> with
  \<^verbatim>\<open>1e-150 <= abs(r) <= 1e150\<close> has a square between \<^verbatim>\<open>1e-300\<close> and
  \<^verbatim>\<open>1e300\<close>, a normal double, so that \<^verbatim>\<open>dot\<close> and \<^verbatim>\<open>math.sqrt\<close> lose no
  more than rounding. This is a predicate of the statements, not of the code.
\<close>

definition moderate :: "real \<Rightarrow> bool" where
  "moderate r = (1 / 10 ^ 150 \<le> \<bar>r\<bar> \<and> \<bar>r\<bar> \<le> 10 ^ 150)"

subsection \<open>Components, products and magnitude\<close>

text \<open>\<^verbatim>\<open>__iter__\<close>: the three components, in this order.\<close>

definition iter :: "Vector \<Rightarrow> real list" where
  "iter self = [x self, y self, z self]"

text \<open>\<^verbatim>\<open>dot\<close>: \<^verbatim>\<open>sum(sc*oc for sc, oc in zip(self, other))\<close>.\<close>

definition dot :: "Vector \<Rightarrow> Vector \<Rightarrow> real" where
  "dot self other = sum_list (map (\<lambda>(sc, oc). sc * oc) (zip (iter self) (iter other)))"

text \<open>The getter of \<^verbatim>\<open>magnitude\<close>: \<^verbatim>\<open>math.sqrt(self.dot(self))\<close>.\<close>

definition magnitude :: "Vector \<Rightarrow> py_error + real" where
  "magnitude self = py_sqrt (dot self self)"

text \<open>
  The setter of \<^verbatim>\<open>magnitude\<close>. The three assignments divide by the same
  \<^verbatim>\<open>current_magnitude\<close>, so the first one raises if any does, before any
  attribute is written.
\<close>

definition set_magnitude :: "Vector \<Rightarrow> real \<Rightarrow> py_error + Vector" where
  "set_magnitude self new_magnitude =
     py_bind (magnitude self) (\<lambda>current_magnitude.
     py_bind (py_div (x self) current_magnitude) (\<lambda>qx.
     py_bind (py_div (y self) current_magnitude) (\<lambda>qy.
     py_bind (py_div (z self) current_magnitude) (\<lambda>qz.
       Inr \<lparr>x = qx * new_magnitude, y = qy * new_magnitude, z = qz * new_magnitude\<rparr>))))"

definition normalize :: "Vector \<Rightarrow> py_error + Vector" where
  "normalize self = set_magnitude self 1"

text \<open>\<^verbatim>\<open>limit(upper_limit=None, lower_limit=None)\<close>.\<close>

definition limit :: "Vector \<Rightarrow> real option \<Rightarrow> real option \<Rightarrow> py_error + Vector" where
  "limit self upper_limit lower_limit =
     py_bind (magnitude self) (\<lambda>m.
       let upper = (case upper_limit of None \<Rightarrow> m | Some u \<Rightarrow> u);
           lower = (case lower_limit of None \<Rightarrow> m | Some l \<Rightarrow> l)
       in if m < lower then set_magnitude self lower
          else if upper < m then set_magnitude self upper
          else Inr self)"

subsection \<open>Angle and rotation\<close>

text \<open>The getter of \<^verbatim>\<open>angle\<close>.\<close>

definition angle :: "Vector \<Rightarrow> py_error + real" where
  "angle self = (if z self \<noteq> 0 then Inl ValueError else Inr (atan2 (y self) (x self)))"

text \<open>\<^verbatim>\<open>rotate\<close>: both new components are computed before either is stored.\<close>

definition rotate_vec :: "Vector \<Rightarrow> real \<Rightarrow> Vector" where
  "rotate_vec self theta =
     self\<lparr>x := x self * cos theta - y self * sin theta,
          y := x self * sin theta + y self * cos theta\<rparr>"

text \<open>The setter of \<^verbatim>\<open>angle\<close>: \<^verbatim>\<open>self.rotate(theta - self.angle)\<close>.\<close>

definition set_angle :: "Vector \<Rightarrow> real \<Rightarrow> py_error + Vector" where
  "set_angle self theta = py_bind (angle self) (\<lambda>a. Inr (rotate_vec self (theta - a)))"

text \<open>
  \<^verbatim>\<open>angle_between\<close>:
  \<^verbatim>\<open>math.acos((self @ other) / (self.magnitude * other.magnitude))\<close>.
\<close>

definition angle_between :: "Vector \<Rightarrow> Vector \<Rightarrow> py_error + real" where
  "angle_between self other =
     py_bind (magnitude self) (\<lambda>ms.
     py_bind (magnitude other) (\<lambda>mo.
     py_bind (py_div (dot self other) (ms * mo)) py_acos))"

subsection \<open>Arithmetic\<close>

text \<open>\<^verbatim>\<open>__mul__\<close>, \<^verbatim>\<open>__rmul__\<close> and \<^verbatim>\<open>__truediv__\<close>.\<close>

definition mul :: "Vector \<Rightarrow> py_value \<Rightarrow> py_error + Vector" where
  "mul self k =
     (if isinstance_int k \<or> isinstance_float k
      then Inr \<lparr>x = x self * num_of k, y = y self * num_of k, z = z self * num_of k\<rparr>
      else Inl TypeError)"

definition rmul :: "Vector \<Rightarrow> py_value \<Rightarrow> py_error + Vector" where
  "rmul self other = mul self other"

definition truediv :: "Vector \<Rightarrow> py_value \<Rightarrow> py_error + Vector" where
  "truediv self other = py_bind (py_recip other) (\<lambda>q. mul self (PyFloat q))"

subsection \<open>Factories\<close>

text \<open>
  \<^verbatim>\<open>random_2D\<close> and \<^verbatim>\<open>random_3D\<close>, as functions of the values that
  \<^verbatim>\<open>random.random()\<close> returns, each in \<open>[0, 1)\<close>; and \<^verbatim>\<open>from_angle\<close>.
\<close>

definition random_2D :: "real \<Rightarrow> real \<Rightarrow> py_error + Vector" where
  "random_2D u1 u2 = normalize \<lparr>x = u1, y = u2, z = 0\<rparr>"

definition random_3D :: "real \<Rightarrow> real \<Rightarrow> real \<Rightarrow> py_error + Vector" where
  "random_3D u1 u2 u3 = normalize \<lparr>x = u1, y = u2, z = u3\<rparr>"


section \<open>Basic facts\<close>

lemma dot_expand:
  "dot a b = x a * x b + y a * y b + z a * z b"
  by (simp add: dot_def iter_def)

lemma dot_self_nonneg: "0 \<le> dot a a"
  by (simp add: dot_expand)

lemma magnitude_value: "magnitude a = Inr (sqrt (dot a a))"
  using dot_self_nonneg [of a] by (simp add: magnitude_def py_sqrt_def)


lemma set_magnitude_zero:
  "dot a a = 0 \<Longrightarrow> set_magnitude a m = Inl ZeroDivisionError"
  by (simp add: set_magnitude_def magnitude_value py_bind_def py_div_def)

lemma set_magnitude_value:
  assumes "dot a a \<noteq> 0"
  shows "set_magnitude a m =
    Inr \<lparr>x = x a / sqrt (dot a a) * m, y = y a / sqrt (dot a a) * m, z = z a / sqrt (dot a a) * m\<rparr>"
  using assms by (simp add: set_magnitude_def magnitude_value py_bind_def py_div_def)

lemma dot_scaled:
  "dot \<lparr>x = x a / c * m, y = y a / c * m, z = z a / c * m\<rparr>
       \<lparr>x = x a / c * m, y = y a / c * m, z = z a / c * m\<rparr> = dot a a * (m / c)\<^sup>2"
  by (simp add: dot_expand power2_eq_square algebra_simps)

lemma magnitude_rescaled:
  assumes "dot a a \<noteq> 0"
  shows "magnitude \<lparr>x = x a / sqrt (dot a a) * m, y = y a / sqrt (dot a a) * m,
                    z = z a / sqrt (dot a a) * m\<rparr> = Inr \<bar>m\<bar>"
proof -
  let ?c = "sqrt (dot a a)"
  let ?w = "\<lparr>x = x a / ?c * m, y = y a / ?c * m, z = z a / ?c * m\<rparr>"
  have pos: "0 < dot a a" using assms dot_self_nonneg [of a] by simp
  have "dot a a * (m / ?c)\<^sup>2 = m\<^sup>2"
    using pos by (simp add: power_divide)
  then have "dot ?w ?w = m\<^sup>2"
    by (simp only: dot_scaled)
  then have "sqrt (dot ?w ?w) = \<bar>m\<bar>"
    by simp
  then show ?thesis
    by (simp only: magnitude_value)
qed





lemma sqrt_25: "sqrt 25 = 5"
  by (rule real_sqrt_unique) simp_all

lemma sqrt_49: "sqrt 49 = 7"
  by (rule real_sqrt_unique) simp_all


lemma magnitude_zero_dot: "magnitude v = Inr 0 \<Longrightarrow> dot v v = 0"
  by (simp add: magnitude_value)

lemma truediv_zero:
  "truediv v (PyInt 0) = Inl ZeroDivisionError" "truediv v (PyFloat 0) = Inl ZeroDivisionError"
  by (simp_all add: truediv_def py_recip_def py_div_def py_bind_def)

lemma magnitude_origin: "magnitude \<lparr>x = 0, y = 0, z = 0\<rparr> = Inr 0"
  by (simp add: magnitude_value dot_expand)

lemma magnitude_236: "magnitude \<lparr>x = 2, y = 3, z = 6\<rparr> = Inr 7"
  by (simp add: magnitude_value dot_expand sqrt_49)

lemma limit_unfold:
  "limit v upper_limit lower_limit =
     (let m = sqrt (dot v v);
          upper = (case upper_limit of None \<Rightarrow> m | Some u \<Rightarrow> u);
          lower = (case lower_limit of None \<Rightarrow> m | Some l \<Rightarrow> l)
      in if m < lower then set_magnitude v lower
         else if upper < m then set_magnitude v upper
         else Inr v)"
  by (simp add: limit_def magnitude_value py_bind_def Let_def)

lemma magnitude_340: "magnitude \<lparr>x = 3, y = 4, z = 0\<rparr> = Inr 5"
  by (simp add: magnitude_value dot_expand sqrt_25)










lemma isclose_refl: "isclose a a"
  by (simp add: isclose_def)

lemma moderate_nonzero: "moderate r \<Longrightarrow> r \<noteq> 0"
  by (auto simp add: moderate_def)

lemma magnitude_nonneg: "magnitude v = Inr m \<Longrightarrow> 0 \<le> m"
  using dot_self_nonneg [of v] by (auto simp add: magnitude_value)

lemma magnitude_dot_nonzero: "magnitude v = Inr m \<Longrightarrow> m \<noteq> 0 \<Longrightarrow> dot v v \<noteq> 0"
  by (auto simp add: magnitude_value)

lemma set_magnitude_by_magnitude:
  assumes "magnitude v = Inr c" and "c \<noteq> 0"
  shows "set_magnitude v m = Inr \<lparr>x = x v / c * m, y = y v / c * m, z = z v / c * m\<rparr>"
    and "magnitude \<lparr>x = x v / c * m, y = y v / c * m, z = z v / c * m\<rparr> = Inr \<bar>m\<bar>"
proof -
  have d: "dot v v \<noteq> 0" using assms by (rule magnitude_dot_nonzero)
  have c: "c = sqrt (dot v v)" using assms(1) by (simp add: magnitude_value)
  show "set_magnitude v m = Inr \<lparr>x = x v / c * m, y = y v / c * m, z = z v / c * m\<rparr>"
    unfolding c using d by (rule set_magnitude_value)
  show "magnitude \<lparr>x = x v / c * m, y = y v / c * m, z = z v / c * m\<rparr> = Inr \<bar>m\<bar>"
    unfolding c using d by (rule magnitude_rescaled)
qed

lemma angle_between_zero_product:
  assumes "magnitude a = Inr ma" "magnitude b = Inr mb" "ma * mb = 0"
  shows "angle_between a b = Inl ZeroDivisionError"
  using assms by (simp add: angle_between_def py_bind_def py_div_def)

section \<open>The angle property\<close>

text \<open>
  C1. Reading \<^verbatim>\<open>angle\<close> raises \<^verbatim>\<open>ValueError\<close> exactly when the \<open>z\<close> component
  is not zero; for a vector with \<open>z = 0\<close> it returns \<open>atan2(y, x)\<close>. Writing
  \<^verbatim>\<open>angle\<close> reads it first, so it raises the same error under the same condition, and
  otherwise rotates by the difference to the current angle.
\<close>

theorem angle_raises_iff_3D:
  "((angle v = Inl ValueError) = (z v \<noteq> 0)) \<and>
   (angle v = (if z v = 0 then Inr (atan2 (y v) (x v)) else Inl ValueError)) \<and>
   ((set_angle v theta = Inl ValueError) = (z v \<noteq> 0)) \<and>
   (set_angle v theta =
      (if z v = 0 then Inr (rotate_vec v (theta - atan2 (y v) (x v))) else Inl ValueError))"
  by (simp add: angle_def set_angle_def py_bind_def)

theorem angle_raises_iff_3D_witness:
  "angle \<lparr>x = 1, y = 1, z = 1\<rparr> = Inl ValueError \<and>
   set_angle \<lparr>x = 1, y = 1, z = 1\<rparr> (pi / 2) = Inl ValueError \<and>
   angle \<lparr>x = 1, y = 1, z = 0\<rparr> = Inr (atan2 1 1)"
  using angle_raises_iff_3D [of "\<lparr>x = 1, y = 1, z = 1\<rparr>" "pi / 2"]
    angle_raises_iff_3D [of "\<lparr>x = 1, y = 1, z = 0\<rparr>" 0]
  by simp

section \<open>Rotation\<close>

text \<open>
  C7. \<^verbatim>\<open>rotate(theta)\<close> has no guard on \<open>z\<close>: for every vector, also one with
  \<open>z \<noteq> 0\<close>, it stores the image of \<open>(x, y)\<close> under the rotation matrix,
  \<open>(x cos \<theta> - y sin \<theta>, x sin \<theta> + y cos \<theta>)\<close>, and leaves \<open>z\<close> as it was. The method
  has no failing branch, so the model returns the rotated vector itself.
\<close>

theorem rotate_matrix_keeps_z:
  "x (rotate_vec v theta) = x v * cos theta - y v * sin theta \<and>
   y (rotate_vec v theta) = x v * sin theta + y v * cos theta \<and>
   z (rotate_vec v theta) = z v"
  by (simp add: rotate_vec_def)

theorem rotate_matrix_keeps_z_witness:
  "angle \<lparr>x = 1, y = 2, z = 3\<rparr> = Inl ValueError \<and>
   rotate_vec \<lparr>x = 1, y = 2, z = 3\<rparr> (pi / 2) = \<lparr>x = - 2, y = 1, z = 3\<rparr>"
proof -
  have "rotate_vec \<lparr>x = 1, y = 2, z = 3\<rparr> (pi / 2) = \<lparr>x = - 2, y = 1, z = 3\<rparr>"
    using rotate_matrix_keeps_z [of "\<lparr>x = 1, y = 2, z = 3\<rparr>" "pi / 2"]
    by (cases "rotate_vec \<lparr>x = 1, y = 2, z = 3\<rparr> (pi / 2)") simp
  then show ?thesis by (simp add: angle_def)
qed

section \<open>Arithmetic\<close>

text \<open>
  C8. \<^verbatim>\<open>v * k\<close> raises \<^verbatim>\<open>TypeError\<close> for an operand that is neither an
  \<^verbatim>\<open>int\<close> nor a \<^verbatim>\<open>float\<close>, another vector among them; for an \<^verbatim>\<open>int\<close> or a
  \<^verbatim>\<open>float\<close> it returns the new vector with each component multiplied by \<open>k\<close>.
  \<^verbatim>\<open>k * v\<close> is the same call. The product is a new record: \<open>v\<close> is an argument and
  is not returned changed.
\<close>

theorem mul_scalar_or_type_error:
  "mul v k =
     (if isinstance_int k \<or> isinstance_float k
      then Inr \<lparr>x = x v * num_of k, y = y v * num_of k, z = z v * num_of k\<rparr>
      else Inl TypeError) \<and>
   rmul v k = mul v k \<and>
   mul v (PyVector w) = Inl TypeError \<and>
   mul v (PyStr s) = Inl TypeError \<and>
   mul v PyNone = Inl TypeError \<and>
   mul v (PyInt i) = Inr \<lparr>x = x v * real_of_int i, y = y v * real_of_int i, z = z v * real_of_int i\<rparr> \<and>
   mul v (PyFloat r) = Inr \<lparr>x = x v * r, y = y v * r, z = z v * r\<rparr>"
  by (simp add: mul_def rmul_def)

theorem mul_scalar_or_type_error_witness:
  "mul \<lparr>x = 2, y = 3, z = 6\<rparr> (PyInt 2) = Inr \<lparr>x = 4, y = 6, z = 12\<rparr> \<and>
   rmul \<lparr>x = 2, y = 3, z = 6\<rparr> (PyInt 2) = Inr \<lparr>x = 4, y = 6, z = 12\<rparr> \<and>
   mul \<lparr>x = 2, y = 3, z = 6\<rparr> (PyVector \<lparr>x = 2, y = 3, z = 6\<rparr>) = Inl TypeError"
  using mul_scalar_or_type_error [of "\<lparr>x = 2, y = 3, z = 6\<rparr>" "PyInt 2" "\<lparr>x = 2, y = 3, z = 6\<rparr>" "''a''" 2 2]
  by simp

section \<open>Division by zero\<close>

text \<open>
  C2, as the code has it. None of the four paths guards its divisor, and Python's
  \<^verbatim>\<open>/\<close> raises on a zero divisor. Dividing a vector by the scalar zero raises
  \<^verbatim>\<open>ZeroDivisionError\<close>; so do setting the magnitude of, and normalizing, a vector
  whose current magnitude is zero; so does \<^verbatim>\<open>angle_between\<close> when one operand has
  magnitude zero and the magnitude of the other is finite (at most \<^verbatim>\<open>1e150\<close>
  here), as the product of the two magnitudes is then zero.
\<close>

theorem zero_division_raises:
  "truediv v (PyInt 0) = Inl ZeroDivisionError \<and>
   truediv v (PyFloat 0) = Inl ZeroDivisionError \<and>
   (magnitude v = Inr 0 \<longrightarrow>
      set_magnitude v m = Inl ZeroDivisionError \<and> normalize v = Inl ZeroDivisionError) \<and>
   (magnitude a = Inr 0 \<and> magnitude b = Inr mb \<and> mb \<le> 10 ^ 150 \<longrightarrow>
      angle_between a b = Inl ZeroDivisionError \<and>
      angle_between b a = Inl ZeroDivisionError)"
proof (intro conjI impI)
  show "truediv v (PyInt 0) = Inl ZeroDivisionError" by (rule truediv_zero)
  show "truediv v (PyFloat 0) = Inl ZeroDivisionError" by (rule truediv_zero)
next
  assume "magnitude v = Inr 0"
  then have d: "dot v v = 0" by (rule magnitude_zero_dot)
  show "set_magnitude v m = Inl ZeroDivisionError" using d by (rule set_magnitude_zero)
  show "normalize v = Inl ZeroDivisionError"
    unfolding normalize_def using d by (rule set_magnitude_zero)
next
  assume h: "magnitude a = Inr 0 \<and> magnitude b = Inr mb \<and> mb \<le> 10 ^ 150"
  then have ma: "magnitude a = Inr 0" and mb: "magnitude b = Inr mb" by simp_all
  show "angle_between a b = Inl ZeroDivisionError"
    using ma mb by (rule angle_between_zero_product) simp
  show "angle_between b a = Inl ZeroDivisionError"
    using mb ma by (rule angle_between_zero_product) simp
qed

theorem zero_division_raises_witness:
  "magnitude \<lparr>x = 0, y = 0, z = 0\<rparr> = Inr 0 \<and>
   magnitude \<lparr>x = 3, y = 4, z = 0\<rparr> = Inr 5 \<and> (5::real) \<le> 10 ^ 150 \<and>
   truediv \<lparr>x = 0, y = 0, z = 0\<rparr> (PyInt 0) = Inl ZeroDivisionError \<and>
   set_magnitude \<lparr>x = 0, y = 0, z = 0\<rparr> 14 = Inl ZeroDivisionError \<and>
   normalize \<lparr>x = 0, y = 0, z = 0\<rparr> = Inl ZeroDivisionError \<and>
   angle_between \<lparr>x = 0, y = 0, z = 0\<rparr> \<lparr>x = 3, y = 4, z = 0\<rparr> = Inl ZeroDivisionError \<and>
   angle_between \<lparr>x = 3, y = 4, z = 0\<rparr> \<lparr>x = 0, y = 0, z = 0\<rparr> = Inl ZeroDivisionError"
proof -
  have r: "(5::real) \<le> 10 ^ 150" by simp
  from zero_division_raises
    [of "\<lparr>x = 0, y = 0, z = 0\<rparr>" 14 "\<lparr>x = 0, y = 0, z = 0\<rparr>" "\<lparr>x = 3, y = 4, z = 0\<rparr>" 5]
    magnitude_origin magnitude_340 r
  show ?thesis by simp
qed

text \<open>
  The claim C2 says that these calls do not raise. Each of them does, at these inputs.
\<close>

theorem zero_division_counterexample:
  "truediv \<lparr>x = 2, y = 3, z = 6\<rparr> (PyInt 0) = Inl ZeroDivisionError \<and>
   truediv \<lparr>x = 2, y = 3, z = 6\<rparr> (PyFloat 0) = Inl ZeroDivisionError \<and>
   normalize \<lparr>x = 0, y = 0, z = 0\<rparr> = Inl ZeroDivisionError \<and>
   set_magnitude \<lparr>x = 0, y = 0, z = 0\<rparr> 14 = Inl ZeroDivisionError \<and>
   angle_between \<lparr>x = 0, y = 0, z = 0\<rparr> \<lparr>x = 1, y = 0, z = 0\<rparr> = Inl ZeroDivisionError"
proof -
  have m1: "magnitude \<lparr>x = 1, y = 0, z = 0\<rparr> = Inr 1"
    by (simp add: magnitude_value dot_expand)
  have "angle_between \<lparr>x = 0, y = 0, z = 0\<rparr> \<lparr>x = 1, y = 0, z = 0\<rparr> = Inl ZeroDivisionError"
    using magnitude_origin m1 by (rule angle_between_zero_product) simp
  then show ?thesis
    by (simp add: truediv_zero normalize_def set_magnitude_zero dot_expand)
qed

section \<open>Setting the magnitude\<close>

text \<open>
  C4, as the code has it. Let the current magnitude \<open>c\<close> be moderate and the assigned
  value \<open>m\<close> be zero or moderate. Assigning \<open>m\<close> to \<^verbatim>\<open>magnitude\<close> stores
  \<open>(component / c) * m\<close> in each of the three components, with \<open>c\<close> positive. The
  new magnitude is close to \<open>\<bar>m\<bar>\<close>, hence to \<open>m\<close> when \<open>0 \<le> m\<close>; and the scale
  factor \<open>m / c\<close> is positive, so that the direction is kept, when \<open>0 < m\<close>.
\<close>

theorem set_magnitude_rescales:
  assumes "magnitude v = Inr c" and "moderate c" and "m = 0 \<or> moderate m"
  shows "set_magnitude v m = Inr \<lparr>x = x v / c * m, y = y v / c * m, z = z v / c * m\<rparr> \<and>
         0 < c \<and>
         (\<exists>n. magnitude \<lparr>x = x v / c * m, y = y v / c * m, z = z v / c * m\<rparr> = Inr n \<and>
              isclose n \<bar>m\<bar> \<and> (0 \<le> m \<longrightarrow> isclose n m)) \<and>
         (0 < m \<longrightarrow> 0 < m / c)"
proof -
  have nz: "c \<noteq> 0" using assms(2) by (rule moderate_nonzero)
  have pos: "0 < c" using magnitude_nonneg [OF assms(1)] nz by simp
  have n: "magnitude \<lparr>x = x v / c * m, y = y v / c * m, z = z v / c * m\<rparr> = Inr \<bar>m\<bar>"
    using assms(1) nz by (rule set_magnitude_by_magnitude)
  have "isclose \<bar>m\<bar> \<bar>m\<bar> \<and> (0 \<le> m \<longrightarrow> isclose \<bar>m\<bar> m)"
    by (simp add: isclose_refl)
  with n have 3: "\<exists>n. magnitude \<lparr>x = x v / c * m, y = y v / c * m, z = z v / c * m\<rparr> = Inr n \<and>
      isclose n \<bar>m\<bar> \<and> (0 \<le> m \<longrightarrow> isclose n m)"
    by blast
  have 4: "0 < m \<longrightarrow> 0 < m / c" using pos by simp
  from set_magnitude_by_magnitude(1) [OF assms(1) nz, of m] pos 3 4 show ?thesis by blast
qed

theorem set_magnitude_rescales_witness:
  "magnitude \<lparr>x = 2, y = 3, z = 6\<rparr> = Inr 7 \<and> moderate 7 \<and> moderate 14 \<and>
   set_magnitude \<lparr>x = 2, y = 3, z = 6\<rparr> 14 = Inr \<lparr>x = 4, y = 6, z = 12\<rparr> \<and>
   (\<exists>n. magnitude \<lparr>x = 4, y = 6, z = 12\<rparr> = Inr n \<and> isclose n 14)"
proof -
  have a: "moderate 7" by (simp add: moderate_def)
  have b: "(14::real) = 0 \<or> moderate 14" by (simp add: moderate_def)
  from set_magnitude_rescales [OF magnitude_236 a b] magnitude_236 a b
  show ?thesis by simp
qed

text \<open>
  The claim C4 says that the new magnitude is the assigned value for every assigned
  value. Assigning \<open>-7\<close> to the magnitude of \<open>(2, 3, 6)\<close> gives \<open>(-2, -3, -6)\<close>, of
  magnitude \<open>7\<close>.
\<close>

theorem set_magnitude_negative_counterexample:
  "magnitude \<lparr>x = 2, y = 3, z = 6\<rparr> = Inr 7 \<and>
   set_magnitude \<lparr>x = 2, y = 3, z = 6\<rparr> (- 7) = Inr \<lparr>x = - 2, y = - 3, z = - 6\<rparr> \<and>
   magnitude \<lparr>x = - 2, y = - 3, z = - 6\<rparr> = Inr 7 \<and>
   magnitude \<lparr>x = - 2, y = - 3, z = - 6\<rparr> \<noteq> Inr (- 7)"
proof -
  have d: "dot \<lparr>x = 2, y = 3, z = 6\<rparr> \<lparr>x = 2, y = 3, z = 6\<rparr> = 49"
    by (simp add: dot_expand)
  have s: "set_magnitude \<lparr>x = 2, y = 3, z = 6\<rparr> (- 7) = Inr \<lparr>x = - 2, y = - 3, z = - 6\<rparr>"
    by (simp add: set_magnitude_value d sqrt_49)
  have m: "magnitude \<lparr>x = - 2, y = - 3, z = - 6\<rparr> = Inr 7"
    by (simp add: magnitude_value dot_expand sqrt_49)
  from magnitude_236 s m show ?thesis by simp
qed

section \<open>Limiting the magnitude\<close>

text \<open>
  C5, as the code has it. With \<open>m\<close> the current magnitude: \<^verbatim>\<open>limit()\<close> with both
  bounds omitted returns the vector unchanged. The lower bound is tested first: when
  \<open>m\<close> is below it, the lower bound is assigned to \<^verbatim>\<open>magnitude\<close>, whatever the
  upper bound is; otherwise, when \<open>m\<close> is above the upper bound, the upper bound is
  assigned; otherwise the vector is unchanged, and an omitted bound never triggers.
  For a moderate \<open>m\<close> and bounds \<open>0 \<le> lo \<le> up\<close>, each zero or moderate, the
  vector ends with a magnitude close to \<open>m\<close> clamped into \<open>[lo, up]\<close>. On a vector
  of magnitude in \<^verbatim>\<open>(1, 1e150]\<close>, \<^verbatim>\<open>limit(upper_limit=1)\<close> divides each component
  by \<open>m\<close>, a positive number, and the result has a magnitude close to \<open>1\<close>.
\<close>

theorem limit_clamps_magnitude:
  assumes "magnitude v = Inr m"
  shows "limit v None None = Inr v \<and>
         (m < l \<longrightarrow> limit v upper_limit (Some l) = set_magnitude v l) \<and>
         (u < m \<longrightarrow> limit v (Some u) None = set_magnitude v u) \<and>
         (l \<le> m \<and> u < m \<longrightarrow> limit v (Some u) (Some l) = set_magnitude v u) \<and>
         (l \<le> m \<longrightarrow> limit v None (Some l) = Inr v) \<and>
         (m \<le> u \<longrightarrow> limit v (Some u) None = Inr v) \<and>
         (l \<le> m \<and> m \<le> u \<longrightarrow> limit v (Some u) (Some l) = Inr v) \<and>
         (moderate m \<and> (lo = 0 \<or> 0 < lo \<and> moderate lo) \<and>
          (up = 0 \<or> 0 < up \<and> moderate up) \<and> lo \<le> up \<longrightarrow>
            (\<exists>w n. limit v (Some up) (Some lo) = Inr w \<and> magnitude w = Inr n \<and>
                   isclose n (max lo (min up m)))) \<and>
         (1 < m \<and> m \<le> 10 ^ 150 \<longrightarrow>
            limit v (Some 1) None = Inr \<lparr>x = x v / m, y = y v / m, z = z v / m\<rparr> \<and>
            (\<exists>n. magnitude \<lparr>x = x v / m, y = y v / m, z = z v / m\<rparr> = Inr n \<and> isclose n 1) \<and>
            0 < 1 / m)"
proof -
  have m: "m = sqrt (dot v v)"
    using assms by (simp add: magnitude_value)
  have a: "limit v None None = Inr v"
    by (simp add: limit_unfold)
  have b: "m < l \<longrightarrow> limit v upper_limit (Some l) = set_magnitude v l"
    by (simp add: limit_unfold m)
  have c: "u < m \<longrightarrow> limit v (Some u) None = set_magnitude v u"
    by (simp add: limit_unfold m)
  have d: "l \<le> m \<and> u < m \<longrightarrow> limit v (Some u) (Some l) = set_magnitude v u"
    by (simp add: limit_unfold m)
  have e: "l \<le> m \<longrightarrow> limit v None (Some l) = Inr v"
    by (simp add: limit_unfold m)
  have f: "m \<le> u \<longrightarrow> limit v (Some u) None = Inr v"
    by (simp add: limit_unfold m)
  have g: "l \<le> m \<and> m \<le> u \<longrightarrow> limit v (Some u) (Some l) = Inr v"
    by (simp add: limit_unfold m)
  have h: "moderate m \<and> (lo = 0 \<or> 0 < lo \<and> moderate lo) \<and>
          (up = 0 \<or> 0 < up \<and> moderate up) \<and> lo \<le> up \<longrightarrow>
            (\<exists>w n. limit v (Some up) (Some lo) = Inr w \<and> magnitude w = Inr n \<and>
                   isclose n (max lo (min up m)))"
  proof
    assume hyp: "moderate m \<and> (lo = 0 \<or> 0 < lo \<and> moderate lo) \<and>
          (up = 0 \<or> 0 < up \<and> moderate up) \<and> lo \<le> up"
    then have nz: "m \<noteq> 0" by (simp add: moderate_nonzero)
    from hyp have lo: "0 \<le> lo" and up: "0 \<le> up" and le: "lo \<le> up" by auto
    consider "m < lo" | "lo \<le> m" "up < m" | "lo \<le> m" "m \<le> up" by linarith
    then show "\<exists>w n. limit v (Some up) (Some lo) = Inr w \<and> magnitude w = Inr n \<and>
                   isclose n (max lo (min up m))"
    proof cases
      case 1
      let ?w = "\<lparr>x = x v / m * lo, y = y v / m * lo, z = z v / m * lo\<rparr>"
      have "limit v (Some up) (Some lo) = set_magnitude v lo"
        using 1 by (simp add: limit_unfold m)
      then have "limit v (Some up) (Some lo) = Inr ?w"
        using set_magnitude_by_magnitude(1) [OF assms nz, of lo] by simp
      moreover have "magnitude ?w = Inr lo"
        using set_magnitude_by_magnitude(2) [OF assms nz, of lo] lo by simp
      moreover have "max lo (min up m) = lo" using 1 le by simp
      ultimately show ?thesis using isclose_refl [of lo] by auto
    next
      case 2
      let ?w = "\<lparr>x = x v / m * up, y = y v / m * up, z = z v / m * up\<rparr>"
      have "limit v (Some up) (Some lo) = set_magnitude v up"
        using 2 by (simp add: limit_unfold m)
      then have "limit v (Some up) (Some lo) = Inr ?w"
        using set_magnitude_by_magnitude(1) [OF assms nz, of up] by simp
      moreover have "magnitude ?w = Inr up"
        using set_magnitude_by_magnitude(2) [OF assms nz, of up] up by simp
      moreover have "max lo (min up m) = up" using 2 le by simp
      ultimately show ?thesis using isclose_refl [of up] by auto
    next
      case 3
      have "limit v (Some up) (Some lo) = Inr v"
        using 3 by (simp add: limit_unfold m)
      moreover have "max lo (min up m) = m" using 3 by simp
      ultimately show ?thesis using assms isclose_refl [of m] by auto
    qed
  qed
  have i: "1 < m \<and> m \<le> 10 ^ 150 \<longrightarrow>
            limit v (Some 1) None = Inr \<lparr>x = x v / m, y = y v / m, z = z v / m\<rparr> \<and>
            (\<exists>n. magnitude \<lparr>x = x v / m, y = y v / m, z = z v / m\<rparr> = Inr n \<and> isclose n 1) \<and>
            0 < 1 / m"
  proof
    assume "1 < m \<and> m \<le> 10 ^ 150"
    then have big: "1 < m" by simp
    then have nz: "m \<noteq> 0" by simp
    have "limit v (Some 1) None = set_magnitude v 1"
      using big by (simp add: limit_unfold m)
    then have 1: "limit v (Some 1) None = Inr \<lparr>x = x v / m, y = y v / m, z = z v / m\<rparr>"
      using set_magnitude_by_magnitude(1) [OF assms nz, of 1] by simp
    have 2: "magnitude \<lparr>x = x v / m, y = y v / m, z = z v / m\<rparr> = Inr 1"
      using set_magnitude_by_magnitude(2) [OF assms nz, of 1] by simp
    from 1 2 big isclose_refl [of 1]
    show "limit v (Some 1) None = Inr \<lparr>x = x v / m, y = y v / m, z = z v / m\<rparr> \<and>
            (\<exists>n. magnitude \<lparr>x = x v / m, y = y v / m, z = z v / m\<rparr> = Inr n \<and> isclose n 1) \<and>
            0 < 1 / m"
      by auto
  qed
  from a b c d e f g h i show ?thesis by blast
qed

theorem limit_clamps_magnitude_witness:
  "magnitude \<lparr>x = 3, y = 4, z = 0\<rparr> = Inr 5 \<and> moderate 5 \<and> moderate 10 \<and> moderate 20 \<and>
   limit \<lparr>x = 3, y = 4, z = 0\<rparr> None None = Inr \<lparr>x = 3, y = 4, z = 0\<rparr> \<and>
   limit \<lparr>x = 3, y = 4, z = 0\<rparr> (Some 1) None = Inr \<lparr>x = 3 / 5, y = 4 / 5, z = 0\<rparr> \<and>
   (\<exists>n. magnitude \<lparr>x = 3 / 5, y = 4 / 5, z = 0\<rparr> = Inr n \<and> isclose n 1) \<and>
   limit \<lparr>x = 3, y = 4, z = 0\<rparr> (Some 1) (Some 10) = set_magnitude \<lparr>x = 3, y = 4, z = 0\<rparr> 10 \<and>
   limit \<lparr>x = 3, y = 4, z = 0\<rparr> (Some 6) (Some 2) = Inr \<lparr>x = 3, y = 4, z = 0\<rparr> \<and>
   (\<exists>w n. limit \<lparr>x = 3, y = 4, z = 0\<rparr> (Some 20) (Some 10) = Inr w \<and> magnitude w = Inr n \<and>
          isclose n 10)"
proof -
  have r: "moderate 5" "moderate 10" "moderate 20"
    by (simp_all add: moderate_def)
  from limit_clamps_magnitude
      [OF magnitude_340, where l = 10 and upper_limit = "Some 1" and u = 1 and lo = 10 and up = 20]
    limit_clamps_magnitude
      [OF magnitude_340, where l = 2 and upper_limit = None and u = 6 and lo = 10 and up = 20]
    magnitude_340 r
  show ?thesis by simp
qed

text \<open>
  The claim C5 says that \<^verbatim>\<open>limit\<close> clamps the magnitude into the bounds: that the
  magnitude is set to the lower bound when it is below it, and to the upper bound
  when it is above it. On the zero vector \<^verbatim>\<open>limit(lower_limit=1)\<close> raises
  \<^verbatim>\<open>ZeroDivisionError\<close>; and \<^verbatim>\<open>limit(upper_limit=-5)\<close> turns \<open>(3, 4, 0)\<close> into
  \<open>(-3, -4, 0)\<close>, whose magnitude is \<open>5\<close> as before.
\<close>

theorem limit_counterexample:
  "limit \<lparr>x = 0, y = 0, z = 0\<rparr> None (Some 1) = Inl ZeroDivisionError \<and>
   limit \<lparr>x = 3, y = 4, z = 0\<rparr> (Some (- 5)) None = Inr \<lparr>x = - 3, y = - 4, z = 0\<rparr> \<and>
   magnitude \<lparr>x = - 3, y = - 4, z = 0\<rparr> = Inr 5"
proof -
  have a: "limit \<lparr>x = 0, y = 0, z = 0\<rparr> None (Some 1) = Inl ZeroDivisionError"
    by (simp add: limit_unfold dot_expand set_magnitude_zero)
  have d: "dot \<lparr>x = 3, y = 4, z = 0\<rparr> \<lparr>x = 3, y = 4, z = 0\<rparr> = 25"
    by (simp add: dot_expand)
  have "set_magnitude \<lparr>x = 3, y = 4, z = 0\<rparr> (- 5) = Inr \<lparr>x = - 3, y = - 4, z = 0\<rparr>"
    by (simp add: set_magnitude_value d sqrt_25)
  then have b: "limit \<lparr>x = 3, y = 4, z = 0\<rparr> (Some (- 5)) None = Inr \<lparr>x = - 3, y = - 4, z = 0\<rparr>"
    by (simp add: limit_unfold d sqrt_25)
  have c: "magnitude \<lparr>x = - 3, y = - 4, z = 0\<rparr> = Inr 5"
    by (simp add: magnitude_value dot_expand sqrt_25)
  from a b c show ?thesis by simp
qed

section \<open>The factories\<close>

text \<open>
  C6. The claim covers every draw in \<open>[0, 1)\<close>, and the docstrings promise a unit
  vector. When every value drawn is \<open>0\<close>, which \<^verbatim>\<open>random.random()\<close> can return,
  \<^verbatim>\<open>normalize\<close> divides by the magnitude zero: \<^verbatim>\<open>random_2D\<close> and
  \<^verbatim>\<open>random_3D\<close> raise \<^verbatim>\<open>ZeroDivisionError\<close> and return no vector.
\<close>

theorem random_zero_draw_raises:
  "random_2D 0 0 = Inl ZeroDivisionError \<and> random_3D 0 0 0 = Inl ZeroDivisionError"
  by (simp add: random_2D_def random_3D_def normalize_def set_magnitude_zero dot_expand)




end
